theory Spec2Isabelle
  imports Complex_Main "HOL-Library.Char_ord" "HOL-Library.List_Lexorder"
begin

section \<open>The map generation script \<^verbatim>\<open>scripts/generate_maps.py\<close>\<close>

text \<open>
  The script loads \<^verbatim>\<open>results/jet_fuel_opportunities.csv\<close> into a data frame and
  renders three folium maps from it. The embedding follows the script top to bottom.

  Numbers: a float cell is the rational number that it denotes (\<^typ>\<open>rat\<close>), so
  comparisons are exact; the two float computations whose rounding shows in the output,
  the mean of a group and the rounding to two decimals, are parameters of the model (see
  the state summary below). A missing cell (pandas NaN) of a coordinate column is
  \<^term>\<open>None\<close>. Following the data model (only latitude and longitude are nullable) the
  other cells of a row are present, and every cell has the type of its column. Strings
  are byte strings compared lexicographically, which is Python's order on code points
  for UTF-8 text.

  Of a map, the model keeps the layer that the script computes from the data (heat
  points, markers, circles); the base map, the title, the legend and the constant styling
  arguments are the same for every input and are left out.
\<close>

subsection \<open>Data model\<close>

text \<open>
  A row of the data frame. The field names are the column labels the script reads.
\<close>

record AirportRecord =
  ARPT_NAME :: string
  CITY :: string
  STATE_NAME :: string
  LAT_DECIMAL :: "rat option"
  LONG_DECIMAL :: "rat option"
  predicted_score :: rat
  cert_importance_score :: rat
  is_military_relevant :: bool

text \<open>
  The data frame: the header of the file and its rows in file order. A column that the
  header does not list does not exist, whatever the row record holds for it: every read
  of a cell goes through \<open>getitem\<close> below, which raises \<^verbatim>\<open>KeyError\<close> for it.
\<close>

record DataFrame =
  columns :: "string list"
  rows :: "AirportRecord list"

datatype error = FileNotFoundError | ParserError | KeyError string

text \<open>What \<^verbatim>\<open>pd.read_csv\<close> finds at the fixed path.\<close>

datatype csv_file = Missing | Unparsable | Parsed DataFrame

definition read_csv :: "csv_file \<Rightarrow> error + DataFrame" where
  "read_csv f = (case f of Missing \<Rightarrow> Inl FileNotFoundError
                 | Unparsable \<Rightarrow> Inl ParserError
                 | Parsed d \<Rightarrow> Inr d)"

text \<open>\<^verbatim>\<open>row['label']\<close> and \<^verbatim>\<open>df['label']\<close>: the cell, or \<^verbatim>\<open>KeyError\<close>.\<close>

definition getitem :: "DataFrame \<Rightarrow> string \<Rightarrow> (AirportRecord \<Rightarrow> 'a) \<Rightarrow> AirportRecord \<Rightarrow> error + 'a" where
  "getitem d label field row =
     (if label \<in> set (columns d) then Inr (field row) else Inl (KeyError label))"

text \<open>Sequencing of computations that may raise: the first exception ends the rest.\<close>

definition bind_err :: "error + 'a \<Rightarrow> ('a \<Rightarrow> error + 'b) \<Rightarrow> error + 'b" where
  "bind_err m f = (case m of Inl e \<Rightarrow> Inl e | Inr v \<Rightarrow> f v)"

definition required_columns :: "string list" where
  "required_columns =
     [''ARPT_NAME'', ''CITY'', ''STATE_NAME'', ''LAT_DECIMAL'', ''LONG_DECIMAL'',
      ''predicted_score'', ''cert_importance_score'', ''is_military_relevant'']"

definition has_columns :: "DataFrame \<Rightarrow> bool" where
  "has_columns d = (set required_columns \<subseteq> set (columns d))"

subsection \<open>Map 1: the heat map (lines 23 to 26)\<close>

text \<open>
  \<^verbatim>\<open>pd.notna(row['LAT_DECIMAL']) and pd.notna(row['LONG_DECIMAL'])\<close>: the longitude is read
  only when the latitude is present.
\<close>

definition coordinates_notna :: "DataFrame \<Rightarrow> AirportRecord \<Rightarrow> error + bool" where
  "coordinates_notna d row =
     bind_err (getitem d ''LAT_DECIMAL'' LAT_DECIMAL row) (\<lambda>lat.
       if lat = None then Inr False
       else bind_err (getitem d ''LONG_DECIMAL'' LONG_DECIMAL row) (\<lambda>lon. Inr (lon \<noteq> None)))"

type_synonym heat_point = "rat option \<times> rat option \<times> rat"

definition heat_point :: "DataFrame \<Rightarrow> AirportRecord \<Rightarrow> error + heat_point" where
  "heat_point d row =
     bind_err (getitem d ''LAT_DECIMAL'' LAT_DECIMAL row) (\<lambda>lat.
     bind_err (getitem d ''LONG_DECIMAL'' LONG_DECIMAL row) (\<lambda>lon.
     bind_err (getitem d ''predicted_score'' predicted_score row) (\<lambda>score.
       Inr (lat, lon, score))))"

text \<open>The loop over \<^verbatim>\<open>df.iterrows()\<close>, appending to \<^verbatim>\<open>heat_data\<close>.\<close>

fun heat_loop :: "DataFrame \<Rightarrow> AirportRecord list \<Rightarrow> heat_point list \<Rightarrow> error + heat_point list" where
  "heat_loop d [] heat_data = Inr heat_data"
| "heat_loop d (row # rest) heat_data =
     bind_err (coordinates_notna d row) (\<lambda>ok.
       if ok then bind_err (heat_point d row) (\<lambda>p. heat_loop d rest (heat_data @ [p]))
       else heat_loop d rest heat_data)"

definition heat_data :: "DataFrame \<Rightarrow> error + heat_point list" where
  "heat_data d = heat_loop d (rows d) []"

subsection \<open>Map 2: the markers of the top opportunities (lines 59 to 89)\<close>

text \<open>\<^verbatim>\<open>df[df['predicted_score'] >= 70].copy()\<close>: a new frame with the selected rows.\<close>

definition high_opportunities :: "DataFrame \<Rightarrow> error + DataFrame" where
  "high_opportunities d =
     (if ''predicted_score'' \<in> set (columns d)
      then Inr \<lparr>columns = columns d, rows = filter (\<lambda>row. predicted_score row \<ge> 70) (rows d)\<rparr>
      else Inl (KeyError ''predicted_score''))"

text \<open>The colour and the icon of a marker (lines 64 to 72).\<close>

definition marker_style :: "rat \<Rightarrow> string \<times> string" where
  "marker_style score =
     (if score \<ge> 85 then (''red'', ''star'')
      else if score \<ge> 75 then (''orange'', ''plane'')
      else (''yellow'', ''info-sign''))"

text \<open>
  The popup and the tooltip are format strings; the model keeps the values that are
  put into the template, in the template's order, instead of the formatted text.
\<close>

record marker_popup =
  popup_name :: string
  popup_city :: string
  popup_state :: string
  popup_score :: rat
  popup_cert :: rat
  popup_military :: string

record Marker =
  location :: "rat option \<times> rat option"
  popup :: marker_popup
  icon_color :: string
  icon :: string
  tooltip :: "string \<times> rat"

definition make_marker :: "DataFrame \<Rightarrow> AirportRecord \<Rightarrow> error + Marker" where
  "make_marker d row =
     bind_err (getitem d ''predicted_score'' predicted_score row) (\<lambda>score.
     bind_err (getitem d ''ARPT_NAME'' ARPT_NAME row) (\<lambda>name.
     bind_err (getitem d ''CITY'' CITY row) (\<lambda>city.
     bind_err (getitem d ''STATE_NAME'' STATE_NAME row) (\<lambda>state.
     bind_err (getitem d ''cert_importance_score'' cert_importance_score row) (\<lambda>cert.
     bind_err (getitem d ''is_military_relevant'' is_military_relevant row) (\<lambda>military.
     bind_err (getitem d ''LAT_DECIMAL'' LAT_DECIMAL row) (\<lambda>lat.
     bind_err (getitem d ''LONG_DECIMAL'' LONG_DECIMAL row) (\<lambda>lon.
       Inr \<lparr>location = (lat, lon),
            popup = \<lparr>popup_name = name, popup_city = city, popup_state = state,
                     popup_score = score, popup_cert = cert,
                     popup_military = (if military then ''Yes'' else ''No'')\<rparr>,
            icon_color = fst (marker_style score),
            icon = snd (marker_style score),
            tooltip = (name, score)\<rparr>))))))))"

text \<open>The loop over \<^verbatim>\<open>high_opportunities.iterrows()\<close>, adding to the marker cluster.\<close>

fun marker_loop :: "DataFrame \<Rightarrow> AirportRecord list \<Rightarrow> Marker list \<Rightarrow> error + Marker list" where
  "marker_loop d [] marker_cluster = Inr marker_cluster"
| "marker_loop d (row # rest) marker_cluster =
     bind_err (coordinates_notna d row) (\<lambda>ok.
       if ok then bind_err (make_marker d row) (\<lambda>m. marker_loop d rest (marker_cluster @ [m]))
       else marker_loop d rest marker_cluster)"

definition marker_cluster :: "DataFrame \<Rightarrow> error + Marker list" where
  "marker_cluster high = marker_loop high (rows high) []"

text \<open>The markers of the map, from the loaded frame.\<close>

definition marker_layer :: "DataFrame \<Rightarrow> error + Marker list" where
  "marker_layer d = bind_err (high_opportunities d) marker_cluster"

subsection \<open>Map 3: the state summary (lines 116 to 174)\<close>

text \<open>
  \<^verbatim>\<open>df.groupby('STATE_NAME')\<close> collects, for every label of the column, the scores of the
  rows that carry it, in row order; the groups come out sorted by label.
\<close>

fun add_to_group :: "string \<Rightarrow> rat \<Rightarrow> (string \<times> rat list) list \<Rightarrow> (string \<times> rat list) list" where
  "add_to_group k v [] = [(k, [v])]"
| "add_to_group k v ((k', vs) # gs) =
     (if k = k' then (k', vs @ [v]) # gs else (k', vs) # add_to_group k v gs)"

definition groupby :: "DataFrame \<Rightarrow> error + (string \<times> rat list) list" where
  "groupby d =
     (if ''STATE_NAME'' \<notin> set (columns d) then Inl (KeyError ''STATE_NAME'')
      else if ''predicted_score'' \<notin> set (columns d) then Inl (KeyError ''predicted_score'')
      else Inr (sort_key fst
             (foldl (\<lambda>gs row. add_to_group (STATE_NAME row) (predicted_score row) gs) [] (rows d))))"

text \<open>
  The aggregations of a group, which is never empty. The maximum and the count are
  exact. The mean and the rounding of \<^verbatim>\<open>.round(2)\<close> are float64 computations of pandas and
  numpy (a float sum divided by the count; \<^verbatim>\<open>rint(x * 100) / 100\<close> with the product and the
  quotient rounded to float64), whose results are not those of exact arithmetic: the
  score 2.675 is rounded to 2.68 and the score 39.995 to 39.99. They are parameters of
  the model, and every statement below holds for every such pair of functions.
\<close>

record float_library =
  mean :: "rat list \<Rightarrow> rat"
  round2 :: "rat \<Rightarrow> rat"

definition maximum :: "rat list \<Rightarrow> rat" where
  "maximum vs = foldl max (hd vs) (tl vs)"

record StateAggregate =
  avg_score :: rat
  max_score :: rat
  count :: nat

text \<open>\<^verbatim>\<open>.agg({'predicted_score': ['mean', 'max', 'count']}).round(2)\<close> on one group.\<close>

definition agg :: "float_library \<Rightarrow> rat list \<Rightarrow> StateAggregate" where
  "agg lib scores =
     \<lparr>avg_score = round2 lib (mean lib scores),
      max_score = round2 lib (maximum scores),
      count = length scores\<rparr>"

definition state_summary :: "float_library \<Rightarrow> DataFrame \<Rightarrow> error + (string \<times> StateAggregate) list" where
  "state_summary lib d =
     bind_err (groupby d) (\<lambda>groups. Inr (map (\<lambda>(state, scores). (state, agg lib scores)) groups))"

text \<open>The hand-written table of state centres (lines 125 to 141).\<close>

definition state_centers :: "(string \<times> rat \<times> rat) list" where
  "state_centers =
     [(''Texas'', (31054487 / 1000000, - (97563461 / 1000000))),
      (''California'', (36116203 / 1000000, - (119681564 / 1000000))),
      (''Florida'', (27766279 / 1000000, - (81686783 / 1000000))),
      (''Alaska'', (61370716 / 1000000, - (152404419 / 1000000))),
      (''Montana'', (46921925 / 1000000, - (110454353 / 1000000))),
      (''New York'', (42165726 / 1000000, - (74948051 / 1000000))),
      (''Arizona'', (33729759 / 1000000, - (111431221 / 1000000))),
      (''Nevada'', (38313515 / 1000000, - (117055374 / 1000000))),
      (''Colorado'', (39059811 / 1000000, - (105311104 / 1000000))),
      (''Illinois'', (40349457 / 1000000, - (88986137 / 1000000))),
      (''Georgia'', (33040619 / 1000000, - (83643074 / 1000000))),
      (''Michigan'', (43326618 / 1000000, - (84536095 / 1000000))),
      (''Pennsylvania'', (40590752 / 1000000, - (77209755 / 1000000))),
      (''Ohio'', (40388783 / 1000000, - (82764915 / 1000000))),
      (''North Carolina'', (35630066 / 1000000, - (79806419 / 1000000)))]"

text \<open>The fill colour of a circle (lines 147 to 154).\<close>

definition fill_color :: "rat \<Rightarrow> string" where
  "fill_color avg =
     (if avg \<ge> 60 then ''red''
      else if avg \<ge> 50 then ''orange''
      else if avg \<ge> 40 then ''yellow''
      else ''green'')"

text \<open>
  \<^verbatim>\<open>min(stats['count'] / 10, 30)\<close>: the row of the summary is a float series, so the
  division is exact division.
\<close>

definition radius :: "nat \<Rightarrow> rat" where
  "radius n = min (of_nat n / 10) 30"

record CircleMarker =
  circle_location :: "rat \<times> rat"
  circle_radius :: rat
  circle_state :: string
  circle_stats :: StateAggregate
  fillColor :: string

text \<open>The loop over \<^verbatim>\<open>state_summary.iterrows()\<close>.\<close>

fun circle_loop :: "(string \<times> StateAggregate) list \<Rightarrow> CircleMarker list \<Rightarrow> CircleMarker list" where
  "circle_loop [] m3 = m3"
| "circle_loop ((state, stats) # rest) m3 =
     (case map_of state_centers state of
        Some center \<Rightarrow>
          circle_loop rest
            (m3 @ [\<lparr>circle_location = center,
                    circle_radius = radius (count stats),
                    circle_state = state,
                    circle_stats = stats,
                    fillColor = fill_color (avg_score stats)\<rparr>])
      | None \<Rightarrow> circle_loop rest m3)"

definition circle_layer :: "float_library \<Rightarrow> DataFrame \<Rightarrow> error + CircleMarker list" where
  "circle_layer lib d = bind_err (state_summary lib d) (\<lambda>summary. Inr (circle_loop summary []))"

subsection \<open>The script\<close>

text \<open>
  What the run leaves behind: the lines printed and the files saved, in order. The
  state of the run is the loaded frame together with these.
\<close>

datatype message =
    Loaded nat
  | Creating_heat_map
  | Saved_heatmap
  | Creating_detailed_map
  | Saved_detailed nat
  | Creating_state_map
  | Saved_state_map
  | All_maps_created
  | Map_files_generated

datatype document =
    Heat_map "heat_point list"
  | Marker_map "Marker list"
  | Circle_map "CircleMarker list"

record state =
  df :: DataFrame
  stdout :: "message list"
  files :: "(string \<times> document) list"

definition print :: "message \<Rightarrow> state \<Rightarrow> state" where
  "print m s = s\<lparr>stdout := stdout s @ [m]\<rparr>"

definition save :: "string \<Rightarrow> document \<Rightarrow> state \<Rightarrow> state" where
  "save name doc s = s\<lparr>files := files s @ [(name, doc)]\<rparr>"

text \<open>
  A section of the script takes the state and gives the state it leaves, with the
  exception that ended it, if any.
\<close>

definition map_1 :: "state \<Rightarrow> state \<times> error option" where
  "map_1 s0 =
     (let s1 = print Creating_heat_map s0
      in case heat_data (df s1) of
           Inl e \<Rightarrow> (s1, Some e)
         | Inr h \<Rightarrow>
             (print Saved_heatmap (save ''opportunity_heatmap.html'' (Heat_map h) s1), None))"

text \<open>The line printed after saving reports \<^verbatim>\<open>len(high_opportunities)\<close>.\<close>

definition map_2 :: "state \<Rightarrow> state \<times> error option" where
  "map_2 s0 =
     (let s1 = print Creating_detailed_map s0
      in case high_opportunities (df s1) of
           Inl e \<Rightarrow> (s1, Some e)
         | Inr high \<Rightarrow>
             (case marker_cluster high of
                Inl e \<Rightarrow> (s1, Some e)
              | Inr ms \<Rightarrow>
                  (print (Saved_detailed (length (rows high)))
                     (save ''detailed_opportunities.html'' (Marker_map ms) s1),
                   None)))"

definition map_3 :: "float_library \<Rightarrow> state \<Rightarrow> state \<times> error option" where
  "map_3 lib s0 =
     (let s1 = print Creating_state_map s0
      in case circle_layer lib (df s1) of
           Inl e \<Rightarrow> (s1, Some e)
         | Inr cs \<Rightarrow>
             (print Saved_state_map (save ''state_opportunities.html'' (Circle_map cs) s1), None))"

text \<open>The closing lines (lines 187 to 191): the success line and the list of the files.\<close>

definition closing_lines :: "state \<Rightarrow> state \<times> error option" where
  "closing_lines s0 = (print Map_files_generated (print All_maps_created s0), None)"

definition and_then :: "state \<times> error option \<Rightarrow> (state \<Rightarrow> state \<times> error option) \<Rightarrow> state \<times> error option" where
  "and_then r f = (case snd r of None \<Rightarrow> f (fst r) | Some e \<Rightarrow> r)"

text \<open>
  The whole run: the lines printed, the files saved and the uncaught exception, if any.
  When \<^verbatim>\<open>read_csv\<close> raises nothing has been printed or saved.
\<close>

definition script ::
  "float_library \<Rightarrow> csv_file \<Rightarrow> message list \<times> (string \<times> document) list \<times> error option" where
  "script lib f =
     (case read_csv f of
        Inl e \<Rightarrow> ([], [], Some e)
      | Inr d \<Rightarrow>
          (let s0 = print (Loaded (length (rows d))) \<lparr>df = d, stdout = [], files = []\<rparr>;
               r = and_then (and_then (and_then (map_1 s0) map_2) (map_3 lib)) closing_lines
           in (stdout (fst r), files (fst r), snd r)))"

subsection \<open>Auxiliary notions for the statements\<close>

text \<open>A row has both coordinates: the test of lines 25 and 62 on a row.\<close>

abbreviation notna_coordinates :: "AirportRecord \<Rightarrow> bool" where
  "notna_coordinates row \<equiv> LAT_DECIMAL row \<noteq> None \<and> LONG_DECIMAL row \<noteq> None"

text \<open>The marker that \<open>make_marker\<close> builds from a row when no read of a cell fails.\<close>

definition marker_of :: "AirportRecord \<Rightarrow> Marker" where
  "marker_of row =
     \<lparr>location = (LAT_DECIMAL row, LONG_DECIMAL row),
      popup = \<lparr>popup_name = ARPT_NAME row, popup_city = CITY row, popup_state = STATE_NAME row,
               popup_score = predicted_score row, popup_cert = cert_importance_score row,
               popup_military = (if is_military_relevant row then ''Yes'' else ''No'')\<rparr>,
      icon_color = fst (marker_style (predicted_score row)),
      icon = snd (marker_style (predicted_score row)),
      tooltip = (ARPT_NAME row, predicted_score row)\<rparr>"

text \<open>The scores of the rows whose state name is \<open>s\<close>, in row order.\<close>

definition scores_of :: "string \<Rightarrow> AirportRecord list \<Rightarrow> rat list" where
  "scores_of s rs = map predicted_score (filter (\<lambda>row. STATE_NAME row = s) rs)"

text \<open>
  A small input: three rows, two states, one missing latitude. The Texas row without a
  latitude and the Alaska row have a score of at least 70.
\<close>

definition fixture_a :: AirportRecord where
  "fixture_a =
     \<lparr>ARPT_NAME = ''A'', CITY = ''Austin'', STATE_NAME = ''Texas'',
      LAT_DECIMAL = None, LONG_DECIMAL = Some (- 97),
      predicted_score = 90, cert_importance_score = 3, is_military_relevant = True\<rparr>"

definition fixture_b :: AirportRecord where
  "fixture_b =
     \<lparr>ARPT_NAME = ''B'', CITY = ''Juneau'', STATE_NAME = ''Alaska'',
      LAT_DECIMAL = Some 58, LONG_DECIMAL = Some (- 134),
      predicted_score = 72, cert_importance_score = 1, is_military_relevant = False\<rparr>"

definition fixture_c :: AirportRecord where
  "fixture_c =
     \<lparr>ARPT_NAME = ''C'', CITY = ''Dallas'', STATE_NAME = ''Texas'',
      LAT_DECIMAL = Some 32, LONG_DECIMAL = Some (- 96),
      predicted_score = 55 / 2, cert_importance_score = 1, is_military_relevant = False\<rparr>"

definition fixture :: DataFrame where
  "fixture = \<lparr>columns = required_columns, rows = [fixture_a, fixture_b, fixture_c]\<rparr>"

text \<open>A second small input, with a state that the table of centres does not list.\<close>

definition fixture_w :: AirportRecord where
  "fixture_w =
     \<lparr>ARPT_NAME = ''W'', CITY = ''Casper'', STATE_NAME = ''Wyoming'',
      LAT_DECIMAL = Some 43, LONG_DECIMAL = Some (- 106),
      predicted_score = 88, cert_importance_score = 2, is_military_relevant = False\<rparr>"

definition fixture_unknown :: DataFrame where
  "fixture_unknown = \<lparr>columns = required_columns, rows = [fixture_b, fixture_w]\<rparr>"

text \<open>
  Two inputs whose header has no \<^verbatim>\<open>CITY\<close> column: one with a single row of low score,
  one with the three rows above.
\<close>

definition columns_without_city :: "string list" where
  "columns_without_city =
     [''ARPT_NAME'', ''STATE_NAME'', ''LAT_DECIMAL'', ''LONG_DECIMAL'',
      ''predicted_score'', ''cert_importance_score'', ''is_military_relevant'']"

definition fixture_low :: DataFrame where
  "fixture_low = \<lparr>columns = columns_without_city, rows = [fixture_c]\<rparr>"

definition fixture_no_city :: DataFrame where
  "fixture_no_city = \<lparr>columns = columns_without_city, rows = [fixture_a, fixture_b, fixture_c]\<rparr>"

section \<open>Properties\<close>

subsection \<open>Reading cells\<close>

lemma has_columns_mem:
  assumes "has_columns d"
  shows "''ARPT_NAME'' \<in> set (columns d)" "''CITY'' \<in> set (columns d)"
    "''STATE_NAME'' \<in> set (columns d)" "''LAT_DECIMAL'' \<in> set (columns d)"
    "''LONG_DECIMAL'' \<in> set (columns d)" "''predicted_score'' \<in> set (columns d)"
    "''cert_importance_score'' \<in> set (columns d)" "''is_military_relevant'' \<in> set (columns d)"
  using assms by (simp_all add: has_columns_def required_columns_def)

lemma has_columns_fixture: "has_columns fixture"
  by (simp add: has_columns_def fixture_def)

lemma has_columns_fixture_unknown: "has_columns fixture_unknown"
  by (simp add: has_columns_def fixture_unknown_def)

lemma bind_err_eq_Inr: "bind_err m f = Inr y \<longleftrightarrow> (\<exists>v. m = Inr v \<and> f v = Inr y)"
  by (cases m) (simp_all add: bind_err_def)

lemma coordinates_notna_Inr:
  "coordinates_notna d row = Inr ok \<Longrightarrow> ok = notna_coordinates row"
  by (auto simp: coordinates_notna_def getitem_def bind_err_def split: if_splits)

lemma coordinates_notna_present:
  "has_columns d \<Longrightarrow> coordinates_notna d row = Inr (notna_coordinates row)"
  by (simp add: coordinates_notna_def getitem_def has_columns_mem bind_err_def)

subsection \<open>The heat loop\<close>

lemma heat_point_Inr:
  "heat_point d row = Inr p \<Longrightarrow> p = (LAT_DECIMAL row, LONG_DECIMAL row, predicted_score row)"
  by (auto simp: heat_point_def getitem_def bind_err_def split: if_splits)

lemma heat_point_present:
  "has_columns d \<Longrightarrow> heat_point d row = Inr (LAT_DECIMAL row, LONG_DECIMAL row, predicted_score row)"
  by (simp add: heat_point_def getitem_def has_columns_mem bind_err_def)

text \<open>Whenever the loop ends without an exception, it has appended the points of the
  rows with both coordinates, in row order.\<close>

lemma heat_loop_Inr:
  "heat_loop d rs acc = Inr h \<Longrightarrow>
   h = acc @ map (\<lambda>row. (LAT_DECIMAL row, LONG_DECIMAL row, predicted_score row))
                (filter notna_coordinates rs)"
proof (induction rs arbitrary: acc)
  case Nil
  then show ?case by simp
next
  case (Cons row rest)
  from Cons.prems obtain ok where ok: "coordinates_notna d row = Inr ok"
    and body: "(if ok then bind_err (heat_point d row) (\<lambda>p. heat_loop d rest (acc @ [p]))
                else heat_loop d rest acc) = Inr h"
    by (auto simp: bind_err_eq_Inr)
  have ok_eq: "ok = notna_coordinates row" using ok by (rule coordinates_notna_Inr)
  show ?case
  proof (cases ok)
    case True
    with body obtain p where p: "heat_point d row = Inr p"
      and rest: "heat_loop d rest (acc @ [p]) = Inr h"
      by (auto simp: bind_err_eq_Inr)
    from Cons.IH[OF rest] heat_point_Inr[OF p] True ok_eq show ?thesis by simp
  next
    case False
    with body have "heat_loop d rest acc = Inr h" by simp
    from Cons.IH[OF this] False ok_eq show ?thesis by auto
  qed
qed

lemma heat_loop_present:
  "has_columns d \<Longrightarrow>
   heat_loop d rs acc =
     Inr (acc @ map (\<lambda>row. (LAT_DECIMAL row, LONG_DECIMAL row, predicted_score row))
                  (filter notna_coordinates rs))"
  by (induction rs arbitrary: acc)
     (simp_all add: coordinates_notna_present heat_point_present bind_err_def)

text \<open>
  C7. When the file has the columns, the heat layer's data is the list of the
  (latitude, longitude, score) cells of the rows whose latitude and longitude are both
  present, in row order and unchanged; and whenever the loop ends without an exception
  its result is that list.
\<close>

theorem heat_data_exact:
  "(has_columns d \<longrightarrow>
      heat_data d =
        Inr (map (\<lambda>row. (LAT_DECIMAL row, LONG_DECIMAL row, predicted_score row))
               (filter (\<lambda>row. LAT_DECIMAL row \<noteq> None \<and> LONG_DECIMAL row \<noteq> None) (rows d)))) \<and>
   (heat_data d = Inr h \<longrightarrow>
      h = map (\<lambda>row. (LAT_DECIMAL row, LONG_DECIMAL row, predicted_score row))
            (filter (\<lambda>row. LAT_DECIMAL row \<noteq> None \<and> LONG_DECIMAL row \<noteq> None) (rows d)))"
proof (intro conjI impI)
  assume "has_columns d"
  then show "heat_data d =
        Inr (map (\<lambda>row. (LAT_DECIMAL row, LONG_DECIMAL row, predicted_score row))
               (filter notna_coordinates (rows d)))"
    by (simp add: heat_data_def heat_loop_present)
next
  assume "heat_data d = Inr h"
  then have "heat_loop d (rows d) [] = Inr h" by (simp add: heat_data_def)
  from heat_loop_Inr[OF this]
  show "h = map (\<lambda>row. (LAT_DECIMAL row, LONG_DECIMAL row, predicted_score row))
            (filter notna_coordinates (rows d))"
    by simp
qed

theorem heat_data_exact_witness:
  "has_columns fixture \<and>
   heat_data fixture = Inr [(Some 58, Some (- 134), 72), (Some 32, Some (- 96), 55 / 2)]"
  using heat_data_exact [of fixture "[(Some 58, Some (- 134), 72), (Some 32, Some (- 96), 55 / 2)]"]
    has_columns_fixture
  by (simp add: fixture_def fixture_a_def fixture_b_def fixture_c_def)

subsection \<open>The circle radius\<close>

text \<open>
  C4. The radius of a state's circle does not decrease when the state's count grows,
  and it is at most 30 for every count.
\<close>

theorem radius_monotone_capped:
  "(m \<le> n \<longrightarrow> radius m \<le> radius n) \<and> radius n \<le> 30"
proof (intro conjI impI)
  assume "m \<le> n"
  then have "(of_nat m :: rat) / 10 \<le> of_nat n / 10"
    by (simp add: divide_right_mono)
  then show "radius m \<le> radius n"
    unfolding radius_def by (rule min.mono) simp
next
  show "radius n \<le> 30"
    by (simp add: radius_def)
qed

theorem radius_monotone_capped_witness:
  "(250::nat) \<le> 400 \<and> radius 250 = 25 \<and> radius 400 = 30 \<and> radius 250 \<le> radius 400"
  using radius_monotone_capped [of 250 400]
  by (simp add: radius_def)

subsection \<open>The marker loop\<close>

lemma make_marker_Inr: "make_marker d row = Inr m \<Longrightarrow> m = marker_of row"
  by (auto simp: make_marker_def marker_of_def getitem_def bind_err_def split: if_splits)

lemma make_marker_present: "has_columns d \<Longrightarrow> make_marker d row = Inr (marker_of row)"
  by (simp add: make_marker_def marker_of_def getitem_def has_columns_mem bind_err_def)

lemma marker_loop_Inr:
  "marker_loop d rs acc = Inr ms \<Longrightarrow> ms = acc @ map marker_of (filter notna_coordinates rs)"
proof (induction rs arbitrary: acc)
  case Nil
  then show ?case by simp
next
  case (Cons row rest)
  from Cons.prems obtain ok where ok: "coordinates_notna d row = Inr ok"
    and body: "(if ok then bind_err (make_marker d row) (\<lambda>m. marker_loop d rest (acc @ [m]))
                else marker_loop d rest acc) = Inr ms"
    by (auto simp: bind_err_eq_Inr)
  have ok_eq: "ok = notna_coordinates row" using ok by (rule coordinates_notna_Inr)
  show ?case
  proof (cases ok)
    case True
    with body obtain m where m: "make_marker d row = Inr m"
      and rest: "marker_loop d rest (acc @ [m]) = Inr ms"
      by (auto simp: bind_err_eq_Inr)
    from Cons.IH[OF rest] make_marker_Inr[OF m] True ok_eq show ?thesis by simp
  next
    case False
    with body have "marker_loop d rest acc = Inr ms" by simp
    from Cons.IH[OF this] False ok_eq show ?thesis by auto
  qed
qed

lemma marker_loop_present:
  "has_columns d \<Longrightarrow> marker_loop d rs acc = Inr (acc @ map marker_of (filter notna_coordinates rs))"
  by (induction rs arbitrary: acc)
     (simp_all add: coordinates_notna_present make_marker_present bind_err_def)

lemma high_opportunities_Inr:
  "high_opportunities d = Inr high \<Longrightarrow>
   columns high = columns d \<and> rows high = filter (\<lambda>row. predicted_score row \<ge> 70) (rows d)"
  by (auto simp: high_opportunities_def split: if_splits)

lemma marker_layer_Inr:
  "marker_layer d = Inr ms \<Longrightarrow>
   ms = map marker_of (filter (\<lambda>row. predicted_score row \<ge> 70 \<and> notna_coordinates row) (rows d))"
  by (auto simp: marker_layer_def marker_cluster_def bind_err_eq_Inr
      dest!: high_opportunities_Inr marker_loop_Inr)

lemma marker_layer_present:
  assumes "has_columns d"
  shows "marker_layer d =
     Inr (map marker_of (filter (\<lambda>row. predicted_score row \<ge> 70 \<and> notna_coordinates row) (rows d)))"
proof -
  let ?high = "\<lparr>columns = columns d, rows = filter (\<lambda>row. predicted_score row \<ge> 70) (rows d)\<rparr>"
  have high: "high_opportunities d = Inr ?high"
    using assms by (simp add: high_opportunities_def has_columns_mem)
  have "has_columns ?high" using assms by (simp add: has_columns_def)
  then have "marker_cluster ?high =
      Inr (map marker_of (filter notna_coordinates (filter (\<lambda>row. predicted_score row \<ge> 70) (rows d))))"
    by (simp add: marker_cluster_def marker_loop_present)
  then show ?thesis
    by (simp add: marker_layer_def high bind_err_def conj_commute)
qed

lemma marker_style_tiers:
  "(fst (marker_style s) = ''red'' \<and> snd (marker_style s) = ''star'') \<longleftrightarrow> 85 \<le> s"
  "(fst (marker_style s) = ''orange'' \<and> snd (marker_style s) = ''plane'') \<longleftrightarrow> 75 \<le> s \<and> s < 85"
  "(fst (marker_style s) = ''yellow'' \<and> snd (marker_style s) = ''info-sign'') \<longleftrightarrow> s < 75"
  by (auto simp: marker_style_def)

text \<open>
  C2, as amended. When the file has the columns, the markers of the map are those of
  exactly the rows whose score is at least 70 and whose latitude and longitude are both
  present, in row order, each built from its row's cells. A marker is red with a star
  exactly when the score is at least 85, orange with a plane exactly when the score is
  at least 75 and below 85, and yellow with an info sign exactly when the score is at
  least 70 and below 75.
\<close>

theorem marker_layer_exact:
  "(has_columns d \<longrightarrow>
      marker_layer d =
        Inr (map marker_of
               (filter (\<lambda>row. 70 \<le> predicted_score row \<and>
                              LAT_DECIMAL row \<noteq> None \<and> LONG_DECIMAL row \<noteq> None) (rows d)))) \<and>
   (has_columns d \<longrightarrow> make_marker d row = Inr (marker_of row)) \<and>
   (icon_color (marker_of row) = ''red'' \<and> icon (marker_of row) = ''star''
      \<longleftrightarrow> 85 \<le> predicted_score row) \<and>
   (icon_color (marker_of row) = ''orange'' \<and> icon (marker_of row) = ''plane''
      \<longleftrightarrow> 75 \<le> predicted_score row \<and> predicted_score row < 85) \<and>
   (70 \<le> predicted_score row \<longrightarrow>
      (icon_color (marker_of row) = ''yellow'' \<and> icon (marker_of row) = ''info-sign''
         \<longleftrightarrow> 70 \<le> predicted_score row \<and> predicted_score row < 75))"
proof (intro conjI impI)
  assume "has_columns d"
  then show "marker_layer d =
        Inr (map marker_of
               (filter (\<lambda>row. 70 \<le> predicted_score row \<and> notna_coordinates row) (rows d)))"
    by (rule marker_layer_present)
next
  assume "has_columns d"
  then show "make_marker d row = Inr (marker_of row)" by (rule make_marker_present)
next
  show "icon_color (marker_of row) = ''red'' \<and> icon (marker_of row) = ''star''
      \<longleftrightarrow> 85 \<le> predicted_score row"
    using marker_style_tiers(1) by (simp add: marker_of_def)
next
  show "icon_color (marker_of row) = ''orange'' \<and> icon (marker_of row) = ''plane''
      \<longleftrightarrow> 75 \<le> predicted_score row \<and> predicted_score row < 85"
    using marker_style_tiers(2) by (simp add: marker_of_def)
next
  assume "70 \<le> predicted_score row"
  then show "icon_color (marker_of row) = ''yellow'' \<and> icon (marker_of row) = ''info-sign''
         \<longleftrightarrow> 70 \<le> predicted_score row \<and> predicted_score row < 75"
    using marker_style_tiers(3) by (simp add: marker_of_def)
qed

theorem marker_layer_exact_witness:
  "has_columns fixture \<and> 70 \<le> predicted_score fixture_b \<and>
   marker_layer fixture =
     Inr [\<lparr>location = (Some 58, Some (- 134)),
           popup = \<lparr>popup_name = ''B'', popup_city = ''Juneau'', popup_state = ''Alaska'',
                    popup_score = 72, popup_cert = 1, popup_military = ''No''\<rparr>,
           icon_color = ''yellow'', icon = ''info-sign'', tooltip = (''B'', 72)\<rparr>] \<and>
   icon_color (marker_of fixture_b) = ''yellow'' \<and> icon (marker_of fixture_b) = ''info-sign''"
  using marker_layer_exact [of fixture fixture_b] has_columns_fixture
  by (simp add: fixture_def fixture_a_def fixture_b_def fixture_c_def marker_of_def marker_style_def)

text \<open>
  C2 as stated fails: a row with score 90 and no latitude is among the rows with score
  at least 70 and has no marker.
\<close>

theorem marker_set_counterexample:
  "has_columns fixture \<and> fixture_a \<in> set (rows fixture) \<and> 70 \<le> predicted_score fixture_a \<and>
   marker_layer fixture = Inr [marker_of fixture_b] \<and> marker_of fixture_a \<noteq> marker_of fixture_b"
  using marker_layer_present [OF has_columns_fixture] has_columns_fixture
  by (simp add: fixture_def fixture_a_def fixture_b_def fixture_c_def marker_of_def)

subsection \<open>Rows without coordinates\<close>

text \<open>
  C1, as amended. When the file has the columns, a row whose latitude or longitude is
  missing contributes nothing to the heat layer and nothing to the marker layer: both
  layers are the same as for the input without that row, the row's point and marker do
  not occur in them, and every point and marker that occurs has both coordinates.
\<close>

theorem null_coordinates_not_rendered:
  assumes "has_columns d"
    and "rows d = xs @ r # ys"
    and "LAT_DECIMAL r = None \<or> LONG_DECIMAL r = None"
  shows "heat_data d = heat_data (d\<lparr>rows := xs @ ys\<rparr>) \<and>
         marker_layer d = marker_layer (d\<lparr>rows := xs @ ys\<rparr>) \<and>
         (\<forall>h. heat_data d = Inr h \<longrightarrow>
            (LAT_DECIMAL r, LONG_DECIMAL r, predicted_score r) \<notin> set h \<and>
            (\<forall>p\<in>set h. fst p \<noteq> None \<and> fst (snd p) \<noteq> None)) \<and>
         (\<forall>ms. marker_layer d = Inr ms \<longrightarrow>
            marker_of r \<notin> set ms \<and>
            (\<forall>m\<in>set ms. fst (location m) \<noteq> None \<and> snd (location m) \<noteq> None))"
proof -
  have cols: "has_columns (d\<lparr>rows := xs @ ys\<rparr>)"
    using assms(1) by (simp add: has_columns_def)
  have heat: "heat_data d = heat_data (d\<lparr>rows := xs @ ys\<rparr>)"
    using assms(3)
    by (auto simp: heat_data_def heat_loop_present[OF assms(1)] heat_loop_present[OF cols] assms(2))
  have markers: "marker_layer d = marker_layer (d\<lparr>rows := xs @ ys\<rparr>)"
    using assms(3)
    by (auto simp: marker_layer_present[OF assms(1)] marker_layer_present[OF cols] assms(2))
  have loc: "location (marker_of row) = (LAT_DECIMAL row, LONG_DECIMAL row)" for row
    by (simp add: marker_of_def)
  have h: "(LAT_DECIMAL r, LONG_DECIMAL r, predicted_score r) \<notin> set h \<and>
            (\<forall>p\<in>set h. fst p \<noteq> None \<and> fst (snd p) \<noteq> None)" if "heat_data d = Inr h" for h
    using that assms(3) by (auto simp: heat_data_def heat_loop_present[OF assms(1)])
  have m: "marker_of r \<notin> set ms \<and>
            (\<forall>m\<in>set ms. fst (location m) \<noteq> None \<and> snd (location m) \<noteq> None)"
    if "marker_layer d = Inr ms" for ms
  proof -
    from that have ms: "ms = map marker_of (filter (\<lambda>row. predicted_score row \<ge> 70 \<and> notna_coordinates row) (rows d))"
      by (rule marker_layer_Inr)
    have "location (marker_of r) \<noteq> location m'" if "m' \<in> set ms" for m'
      using that assms(3) unfolding ms by (auto simp: loc)
    then have "marker_of r \<notin> set ms" by blast
    moreover have "\<forall>m\<in>set ms. fst (location m) \<noteq> None \<and> snd (location m) \<noteq> None"
      unfolding ms by (auto simp: loc)
    ultimately show ?thesis by blast
  qed
  from heat markers h m show ?thesis by blast
qed

theorem null_coordinates_not_rendered_witness:
  "has_columns fixture \<and> rows fixture = [] @ fixture_a # [fixture_b, fixture_c] \<and>
   LAT_DECIMAL fixture_a = None \<and>
   heat_data fixture = heat_data (fixture\<lparr>rows := [] @ [fixture_b, fixture_c]\<rparr>) \<and>
   marker_layer fixture = marker_layer (fixture\<lparr>rows := [] @ [fixture_b, fixture_c]\<rparr>)"
proof -
  have a: "rows fixture = [] @ fixture_a # [fixture_b, fixture_c]" by (simp add: fixture_def)
  have b: "LAT_DECIMAL fixture_a = None \<or> LONG_DECIMAL fixture_a = None"
    by (simp add: fixture_a_def)
  from null_coordinates_not_rendered [OF has_columns_fixture a b] has_columns_fixture a
  show ?thesis by (simp add: fixture_a_def)
qed

text \<open>
  C1 as stated fails for the state summary layer: a single Texas row without a latitude
  gives a Texas circle with count 1, and the input without that row gives no circle,
  whatever the float mean and rounding are.
\<close>

theorem null_coordinates_counterexample:
  "\<forall>lib. LAT_DECIMAL fixture_a = None \<and>
     circle_layer lib \<lparr>columns = required_columns, rows = [fixture_a]\<rparr> =
       Inr [\<lparr>circle_location = (31054487 / 1000000, - (97563461 / 1000000)),
             circle_radius = 1 / 10, circle_state = ''Texas'',
             circle_stats =
               \<lparr>avg_score = round2 lib (mean lib [90]), max_score = round2 lib 90, count = 1\<rparr>,
             fillColor = fill_color (round2 lib (mean lib [90]))\<rparr>] \<and>
     circle_layer lib \<lparr>columns = required_columns, rows = []\<rparr> = Inr []"
  by (simp add: circle_layer_def state_summary_def groupby_def required_columns_def bind_err_def
      fixture_a_def agg_def maximum_def state_centers_def radius_def)

subsection \<open>Grouping by state\<close>

lemma map_of_add_to_group:
  "map_of (add_to_group k v gs) =
     (map_of gs)(k \<mapsto> (case map_of gs k of None \<Rightarrow> [v] | Some vs \<Rightarrow> vs @ [v]))"
  by (induction k v gs rule: add_to_group.induct) (auto simp: fun_eq_iff)

lemma keys_add_to_group: "set (map fst (add_to_group k v gs)) = insert k (set (map fst gs))"
  by (induction k v gs rule: add_to_group.induct) auto

lemma distinct_add_to_group:
  "distinct (map fst gs) \<Longrightarrow> distinct (map fst (add_to_group k v gs))"
proof (induction k v gs rule: add_to_group.induct)
  case (1 k v)
  then show ?case by simp
next
  case (2 k v k' vs gs)
  then show ?case
    by (auto simp: keys_add_to_group simp del: set_map)
qed

lemma map_of_groups:
  "map_of (foldl (\<lambda>gs row. add_to_group (STATE_NAME row) (predicted_score row) gs) gs0 rs) s =
     (case map_of gs0 s of
        None \<Rightarrow> (if scores_of s rs = [] then None else Some (scores_of s rs))
      | Some vs \<Rightarrow> Some (vs @ scores_of s rs))"
proof (induction rs arbitrary: gs0)
  case Nil
  then show ?case by (simp add: scores_of_def split: option.splits)
next
  case (Cons row rest)
  show ?case
    by (simp add: Cons.IH map_of_add_to_group scores_of_def split: option.splits)
qed

lemma keys_groups:
  "set (map fst (foldl (\<lambda>gs row. add_to_group (STATE_NAME row) (predicted_score row) gs) gs0 rs)) =
     set (map fst gs0) \<union> STATE_NAME ` set rs"
  by (induction rs arbitrary: gs0) (auto simp: keys_add_to_group simp del: set_map)

lemma distinct_groups:
  "distinct (map fst gs0) \<Longrightarrow>
   distinct (map fst (foldl (\<lambda>gs row. add_to_group (STATE_NAME row) (predicted_score row) gs) gs0 rs))"
  by (induction rs arbitrary: gs0) (simp_all add: distinct_add_to_group)

lemma map_of_sort_key_fst:
  assumes "distinct (map fst gs)"
  shows "map_of (sort_key fst gs) = map_of gs"
proof -
  have "distinct (map fst (sort_key fst gs))"
    using assms by (simp add: distinct_map)
  then show ?thesis
    using assms by (simp add: map_of_inject_set)
qed

lemma scores_of_eq_Nil: "scores_of s rs = [] \<longleftrightarrow> s \<notin> STATE_NAME ` set rs"
  by (auto simp: scores_of_def filter_empty_conv)

lemma groupby_Inr:
  assumes "groupby d = Inr groups"
  shows "map_of groups s =
           (if s \<in> STATE_NAME ` set (rows d) then Some (scores_of s (rows d)) else None)"
    and "distinct (map fst groups)"
    and "sorted (map fst groups)"
    and "set (map fst groups) = STATE_NAME ` set (rows d)"
proof -
  let ?gs = "foldl (\<lambda>gs row. add_to_group (STATE_NAME row) (predicted_score row) gs) [] (rows d)"
  from assms have groups: "groups = sort_key fst ?gs"
    by (simp add: groupby_def split: if_splits)
  have dist: "distinct (map fst ?gs)" by (rule distinct_groups) simp
  show "map_of groups s =
           (if s \<in> STATE_NAME ` set (rows d) then Some (scores_of s (rows d)) else None)"
    by (simp add: groups map_of_sort_key_fst[OF dist] map_of_groups scores_of_eq_Nil)
  show "distinct (map fst groups)" using dist by (simp add: groups distinct_map)
  show "sorted (map fst groups)" by (simp add: groups)
  show "set (map fst groups) = STATE_NAME ` set (rows d)"
    using keys_groups[of "[]" "rows d"] by (simp add: groups)
qed

lemma groupby_present:
  "''STATE_NAME'' \<in> set (columns d) \<Longrightarrow> ''predicted_score'' \<in> set (columns d) \<Longrightarrow>
   \<exists>groups. groupby d = Inr groups"
  by (simp add: groupby_def)

lemma maximum_eq_Max: "vs \<noteq> [] \<Longrightarrow> maximum vs = Max (set vs)"
proof -
  assume "vs \<noteq> []"
  then obtain x xs where vs: "vs = x # xs" by (cases vs) auto
  have "(\<lambda>a b. max b a) = (max :: rat \<Rightarrow> rat \<Rightarrow> rat)"
    by (simp add: fun_eq_iff max.commute)
  then have "foldl max x xs = fold max xs x"
    by (simp add: foldl_conv_fold)
  then show ?thesis
    unfolding vs maximum_def Max.set_eq_fold by simp
qed

lemma state_summary_Inr:
  assumes "state_summary lib d = Inr summary"
  shows "map_of summary s =
           (if s \<in> STATE_NAME ` set (rows d) then Some (agg lib (scores_of s (rows d))) else None)"
    and "distinct (map fst summary)"
    and "sorted (map fst summary)"
    and "set (map fst summary) = STATE_NAME ` set (rows d)"
proof -
  from assms obtain groups where g: "groupby d = Inr groups"
    and s: "summary = map (\<lambda>(state, scores). (state, agg lib scores)) groups"
    by (auto simp: state_summary_def bind_err_eq_Inr)
  have fst_eq: "map fst summary = map fst groups"
    by (simp add: s case_prod_beta comp_def)
  show "map_of summary s =
           (if s \<in> STATE_NAME ` set (rows d) then Some (agg lib (scores_of s (rows d))) else None)"
    unfolding s map_of_map by (simp add: groupby_Inr(1)[OF g])
  show "distinct (map fst summary)" using groupby_Inr(2)[OF g] by (simp add: fst_eq)
  show "sorted (map fst summary)" using groupby_Inr(3)[OF g] by (simp add: fst_eq)
  show "set (map fst summary) = STATE_NAME ` set (rows d)"
    using groupby_Inr(4)[OF g] by (simp only: fst_eq)
qed

lemma state_summary_present:
  "has_columns d \<Longrightarrow> \<exists>summary. state_summary lib d = Inr summary"
  by (simp add: state_summary_def groupby_def has_columns_mem bind_err_def)

lemma agg_eq:
  assumes "vs \<noteq> []"
  shows "agg lib vs = \<lparr>avg_score = round2 lib (mean lib vs),
                       max_score = round2 lib (Max (set vs)), count = length vs\<rparr>"
  by (simp add: agg_def maximum_eq_Max[OF assms])

text \<open>
  C9. When the file has the columns, a row whose latitude or longitude is missing is
  still part of its state's aggregate: the mean, maximum and count of that state are
  taken over the scores of all rows with the state name, the row's own score among them
  (the mean and the maximum then go through the rounding to two decimals), and the count
  is the number of the state's rows with coordinates plus the number without, so it
  exceeds the number of the state's rows that reach the heat layer.
\<close>

theorem null_coordinates_in_state_aggregate:
  assumes "has_columns d"
    and "r \<in> set (rows d)"
    and "LAT_DECIMAL r = None \<or> LONG_DECIMAL r = None"
    and "ss = map predicted_score (filter (\<lambda>row. STATE_NAME row = STATE_NAME r) (rows d))"
  shows "\<exists>summary a. state_summary lib d = Inr summary \<and>
           map_of summary (STATE_NAME r) = Some a \<and>
           predicted_score r \<in> set ss \<and>
           avg_score a = round2 lib (mean lib ss) \<and>
           max_score a = round2 lib (Max (set ss)) \<and>
           count a = length ss \<and>
           count a =
             length (filter (\<lambda>row. STATE_NAME row = STATE_NAME r \<and>
                              LAT_DECIMAL row \<noteq> None \<and> LONG_DECIMAL row \<noteq> None) (rows d)) +
             length (filter (\<lambda>row. STATE_NAME row = STATE_NAME r \<and>
                              (LAT_DECIMAL row = None \<or> LONG_DECIMAL row = None)) (rows d)) \<and>
           length (filter (\<lambda>row. STATE_NAME row = STATE_NAME r \<and>
                              LAT_DECIMAL row \<noteq> None \<and> LONG_DECIMAL row \<noteq> None) (rows d))
             < count a"
proof -
  let ?P = "\<lambda>row. STATE_NAME row = STATE_NAME r"
  let ?Q = "\<lambda>row. LAT_DECIMAL row \<noteq> None \<and> LONG_DECIMAL row \<noteq> None"
  from state_summary_present[OF assms(1)] obtain summary
    where s: "state_summary lib d = Inr summary" by blast
  have ss: "ss = scores_of (STATE_NAME r) (rows d)" by (simp add: assms(4) scores_of_def)
  have mem: "predicted_score r \<in> set ss" using assms(2) by (auto simp: assms(4))
  then have ne: "ss \<noteq> []" by auto
  have look: "map_of summary (STATE_NAME r) = Some (agg lib ss)"
    using state_summary_Inr(1)[OF s, of "STATE_NAME r"] assms(2) by (simp add: ss)
  have len: "length ss = length (filter ?P (rows d))" by (simp add: assms(4))
  have split: "length (filter ?P xs) =
      length (filter (\<lambda>row. ?P row \<and> ?Q row) xs) + length (filter (\<lambda>row. ?P row \<and> \<not> ?Q row) xs)"
    for xs by (induction xs) auto
  have "r \<in> set (filter (\<lambda>row. ?P row \<and> \<not> ?Q row) (rows d))"
    using assms(2,3) by auto
  then have pos: "0 < length (filter (\<lambda>row. ?P row \<and> \<not> ?Q row) (rows d))"
    by (rule length_pos_if_in_set)
  have nq: "(\<lambda>row. ?P row \<and> \<not> ?Q row) =
      (\<lambda>row. ?P row \<and> (LAT_DECIMAL row = None \<or> LONG_DECIMAL row = None))" by auto
  show ?thesis
    using s look mem split[of "rows d"] pos
    by (simp add: agg_eq[OF ne] len nq)
qed

theorem null_coordinates_in_state_aggregate_witness:
  "\<forall>lib. has_columns fixture \<and> fixture_a \<in> set (rows fixture) \<and>
     LAT_DECIMAL fixture_a = None \<and>
     (\<exists>summary a. state_summary lib fixture = Inr summary \<and>
        map_of summary (STATE_NAME fixture_a) = Some a \<and>
        avg_score a = round2 lib (mean lib [90, 55 / 2]) \<and>
        max_score a = round2 lib 90 \<and> count a = 2)"
proof
  fix lib
  have mem: "fixture_a \<in> set (rows fixture)" by (simp add: fixture_def)
  have null: "LAT_DECIMAL fixture_a = None \<or> LONG_DECIMAL fixture_a = None"
    by (simp add: fixture_a_def)
  have ss: "[90, 55 / 2] =
      map predicted_score
        (filter (\<lambda>row. STATE_NAME row = STATE_NAME fixture_a) (rows fixture))"
    by (simp add: fixture_def fixture_a_def fixture_b_def fixture_c_def)
  from null_coordinates_in_state_aggregate [OF has_columns_fixture mem null ss, of lib]
    has_columns_fixture mem
  show "has_columns fixture \<and> fixture_a \<in> set (rows fixture) \<and>
     LAT_DECIMAL fixture_a = None \<and>
     (\<exists>summary a. state_summary lib fixture = Inr summary \<and>
        map_of summary (STATE_NAME fixture_a) = Some a \<and>
        avg_score a = round2 lib (mean lib [90, 55 / 2]) \<and>
        max_score a = round2 lib 90 \<and> count a = 2)"
    by (auto simp: fixture_a_def)
qed

subsection \<open>The circles of the state summary\<close>

lemma circle_loop_states:
  "map circle_state (circle_loop xs acc) =
     map circle_state acc @ filter (\<lambda>s. map_of state_centers s \<noteq> None) (map fst xs)"
  by (induction xs acc rule: circle_loop.induct) (auto split: option.splits)

lemma circle_loop_members:
  "c \<in> set (circle_loop xs acc) \<Longrightarrow>
   c \<in> set acc \<or>
   ((circle_state c, circle_stats c) \<in> set xs \<and>
    map_of state_centers (circle_state c) = Some (circle_location c) \<and>
    circle_radius c = radius (count (circle_stats c)) \<and>
    fillColor c = fill_color (avg_score (circle_stats c)))"
  by (induction xs acc rule: circle_loop.induct) (auto split: option.splits)

lemma circle_layer_Inr:
  assumes "circle_layer lib d = Inr cs"
  shows "\<exists>summary. state_summary lib d = Inr summary \<and> cs = circle_loop summary []"
  using assms by (auto simp: circle_layer_def bind_err_eq_Inr)

lemma in_table_iff: "map_of state_centers s \<noteq> None \<longleftrightarrow> s \<in> fst ` set state_centers"
  by (simp add: map_of_eq_None_iff)

lemma circle_layer_states:
  assumes "circle_layer lib d = Inr cs"
  shows "set (map circle_state cs) = STATE_NAME ` set (rows d) \<inter> fst ` set state_centers"
    and "distinct (map circle_state cs)"
proof -
  from circle_layer_Inr[OF assms] obtain summary
    where s: "state_summary lib d = Inr summary" and cs: "cs = circle_loop summary []" by blast
  have m: "map circle_state cs = filter (\<lambda>s. map_of state_centers s \<noteq> None) (map fst summary)"
    by (simp add: cs circle_loop_states)
  show "set (map circle_state cs) = STATE_NAME ` set (rows d) \<inter> fst ` set state_centers"
    unfolding m in_table_iff using state_summary_Inr(4)[OF s] by (auto simp del: set_map)
  show "distinct (map circle_state cs)"
    unfolding m using state_summary_Inr(2)[OF s] by (rule distinct_filter)
qed

lemma circle_layer_present: "has_columns d \<Longrightarrow> \<exists>cs. circle_layer lib d = Inr cs"
  using state_summary_present[of d lib] by (auto simp: circle_layer_def bind_err_def)

lemma map_3_Inr:
  "circle_layer lib (df s) = Inr cs \<Longrightarrow>
   map_3 lib s = (s\<lparr>stdout := stdout s @ [Creating_state_map, Saved_state_map],
                files := files s @ [(''state_opportunities.html'', Circle_map cs)]\<rparr>, None)"
  by (simp add: map_3_def print_def save_def)

text \<open>
  C5. When the file has the columns, the state summary map has a circle for a state
  name exactly when the name occurs in the input and is a key of the table of centres,
  and at most one circle per state; a state that is not in the table gets no circle,
  the section ends without an exception, and it prints nothing but its two fixed lines.
\<close>

theorem circle_iff_state_in_table:
  assumes "has_columns (df s)"
  shows "\<exists>cs. circle_layer lib (df s) = Inr cs \<and>
           (\<forall>name. (\<exists>c\<in>set cs. circle_state c = name) \<longleftrightarrow>
                   name \<in> STATE_NAME ` set (rows (df s)) \<and> name \<in> fst ` set state_centers) \<and>
           distinct (map circle_state cs) \<and>
           snd (map_3 lib s) = None \<and>
           stdout (fst (map_3 lib s)) = stdout s @ [Creating_state_map, Saved_state_map] \<and>
           files (fst (map_3 lib s)) = files s @ [(''state_opportunities.html'', Circle_map cs)]"
proof -
  from circle_layer_present[OF assms] obtain cs where cs: "circle_layer lib (df s) = Inr cs" by blast
  have "(\<exists>c\<in>set cs. circle_state c = name) \<longleftrightarrow>
          name \<in> STATE_NAME ` set (rows (df s)) \<and> name \<in> fst ` set state_centers" for name
  proof -
    have "(\<exists>c\<in>set cs. circle_state c = name) \<longleftrightarrow> name \<in> set (map circle_state cs)"
      by auto
    then show ?thesis unfolding circle_layer_states(1)[OF cs] by simp
  qed
  with cs circle_layer_states(2)[OF cs] map_3_Inr[OF cs] show ?thesis by auto
qed

theorem circle_iff_state_in_table_witness:
  "\<forall>lib. has_columns (df \<lparr>df = fixture_unknown, stdout = [], files = []\<rparr>) \<and>
     snd (map_3 lib \<lparr>df = fixture_unknown, stdout = [], files = []\<rparr>) = None \<and>
     (\<exists>cs. circle_layer lib fixture_unknown = Inr cs \<and>
        (\<exists>c\<in>set cs. circle_state c = ''Alaska'') \<and>
        \<not> (\<exists>c\<in>set cs. circle_state c = ''Wyoming''))"
proof
  fix lib
  let ?s = "\<lparr>df = fixture_unknown, stdout = [], files = []\<rparr>"
  have cols: "has_columns (df ?s)" by (simp add: has_columns_fixture_unknown)
  have a: "''Alaska'' \<in> STATE_NAME ` set (rows fixture_unknown)"
    "''Alaska'' \<in> fst ` set state_centers"
    "''Wyoming'' \<notin> fst ` set state_centers"
    by (simp_all add: fixture_unknown_def fixture_b_def state_centers_def)
  from circle_iff_state_in_table [OF cols, of lib] obtain cs
    where cs: "circle_layer lib fixture_unknown = Inr cs"
      and iff: "\<And>name. (\<exists>c\<in>set cs. circle_state c = name) \<longleftrightarrow>
                  name \<in> STATE_NAME ` set (rows fixture_unknown) \<and> name \<in> fst ` set state_centers"
      and ok: "snd (map_3 lib ?s) = None"
    by auto
  have "\<exists>c\<in>set cs. circle_state c = ''Alaska''" using iff[of "''Alaska''"] a by blast
  moreover have "\<not> (\<exists>c\<in>set cs. circle_state c = ''Wyoming'')"
    using iff[of "''Wyoming''"] a by blast
  ultimately show "has_columns (df ?s) \<and> snd (map_3 lib ?s) = None \<and>
     (\<exists>cs. circle_layer lib fixture_unknown = Inr cs \<and>
        (\<exists>c\<in>set cs. circle_state c = ''Alaska'') \<and>
        \<not> (\<exists>c\<in>set cs. circle_state c = ''Wyoming''))"
    using cols cs ok by blast
qed

subsection \<open>Which reads raise\<close>

lemma bind_err_isl: "isl (bind_err m f) \<longleftrightarrow> isl m \<or> (\<exists>v. m = Inr v \<and> isl (f v))"
  by (cases m) (simp_all add: bind_err_def)

lemma coordinates_notna_cases:
  "coordinates_notna d row =
     (if ''LAT_DECIMAL'' \<notin> set (columns d) then Inl (KeyError ''LAT_DECIMAL'')
      else if LAT_DECIMAL row = None then Inr False
      else if ''LONG_DECIMAL'' \<notin> set (columns d) then Inl (KeyError ''LONG_DECIMAL'')
      else Inr (LONG_DECIMAL row \<noteq> None))"
  by (simp add: coordinates_notna_def getitem_def bind_err_def)

lemma heat_point_isl:
  "isl (heat_point d row) \<longleftrightarrow>
     ''LAT_DECIMAL'' \<notin> set (columns d) \<or> ''LONG_DECIMAL'' \<notin> set (columns d) \<or>
     ''predicted_score'' \<notin> set (columns d)"
  by (simp add: heat_point_def getitem_def bind_err_def)

lemma make_marker_isl:
  "isl (make_marker d row) \<longleftrightarrow>
     \<not> {''predicted_score'', ''ARPT_NAME'', ''CITY'', ''STATE_NAME'', ''cert_importance_score'',
        ''is_military_relevant'', ''LAT_DECIMAL'', ''LONG_DECIMAL''} \<subseteq> set (columns d)"
  by (simp add: make_marker_def getitem_def bind_err_def)

lemma heat_loop_isl:
  "isl (heat_loop d rs acc) \<longleftrightarrow>
     (rs \<noteq> [] \<and> ''LAT_DECIMAL'' \<notin> set (columns d)) \<or>
     ((\<exists>row\<in>set rs. LAT_DECIMAL row \<noteq> None) \<and> ''LONG_DECIMAL'' \<notin> set (columns d)) \<or>
     ((\<exists>row\<in>set rs. notna_coordinates row) \<and> ''predicted_score'' \<notin> set (columns d))"
proof (induction rs arbitrary: acc)
  case Nil
  then show ?case by simp
next
  case (Cons row rest)
  show ?case
    by (auto simp: bind_err_isl coordinates_notna_cases heat_point_isl Cons.IH split: if_splits)
qed

lemma marker_loop_isl:
  "isl (marker_loop d rs acc) \<longleftrightarrow>
     (rs \<noteq> [] \<and> ''LAT_DECIMAL'' \<notin> set (columns d)) \<or>
     ((\<exists>row\<in>set rs. LAT_DECIMAL row \<noteq> None) \<and> ''LONG_DECIMAL'' \<notin> set (columns d)) \<or>
     ((\<exists>row\<in>set rs. notna_coordinates row) \<and>
       \<not> {''predicted_score'', ''ARPT_NAME'', ''CITY'', ''STATE_NAME'', ''cert_importance_score'',
          ''is_military_relevant''} \<subseteq> set (columns d))"
proof (induction rs arbitrary: acc)
  case Nil
  then show ?case by simp
next
  case (Cons row rest)
  show ?case
    by (auto simp: bind_err_isl coordinates_notna_cases make_marker_isl Cons.IH split: if_splits)
qed

subsection \<open>The sections of the script\<close>

lemma heat_data_isl:
  "isl (heat_data d) \<longleftrightarrow>
     (rows d \<noteq> [] \<and> ''LAT_DECIMAL'' \<notin> set (columns d)) \<or>
     ((\<exists>row\<in>set (rows d). LAT_DECIMAL row \<noteq> None) \<and> ''LONG_DECIMAL'' \<notin> set (columns d)) \<or>
     ((\<exists>row\<in>set (rows d). notna_coordinates row) \<and> ''predicted_score'' \<notin> set (columns d))"
  by (simp add: heat_data_def heat_loop_isl)

lemma marker_layer_isl:
  "isl (marker_layer d) \<longleftrightarrow>
     ''predicted_score'' \<notin> set (columns d) \<or>
     ((\<exists>row\<in>set (rows d). 70 \<le> predicted_score row) \<and> ''LAT_DECIMAL'' \<notin> set (columns d)) \<or>
     ((\<exists>row\<in>set (rows d). 70 \<le> predicted_score row \<and> LAT_DECIMAL row \<noteq> None) \<and>
        ''LONG_DECIMAL'' \<notin> set (columns d)) \<or>
     ((\<exists>row\<in>set (rows d). 70 \<le> predicted_score row \<and> notna_coordinates row) \<and>
        \<not> {''ARPT_NAME'', ''CITY'', ''STATE_NAME'', ''cert_importance_score'',
           ''is_military_relevant''} \<subseteq> set (columns d))"
  by (auto simp: marker_layer_def marker_cluster_def high_opportunities_def bind_err_isl
      marker_loop_isl filter_empty_conv)

lemma circle_layer_isl:
  "isl (circle_layer lib d) \<longleftrightarrow>
     ''STATE_NAME'' \<notin> set (columns d) \<or> ''predicted_score'' \<notin> set (columns d)"
  by (simp add: circle_layer_def state_summary_def groupby_def bind_err_isl)

lemma map_1_cases:
  "map_1 s =
     (case heat_data (df s) of
        Inl e \<Rightarrow> (s\<lparr>stdout := stdout s @ [Creating_heat_map]\<rparr>, Some e)
      | Inr h \<Rightarrow>
          (s\<lparr>stdout := stdout s @ [Creating_heat_map, Saved_heatmap],
             files := files s @ [(''opportunity_heatmap.html'', Heat_map h)]\<rparr>, None))"
  by (simp add: map_1_def print_def save_def split: sum.splits)

lemma map_2_cases:
  "map_2 s =
     (case marker_layer (df s) of
        Inl e \<Rightarrow> (s\<lparr>stdout := stdout s @ [Creating_detailed_map]\<rparr>, Some e)
      | Inr ms \<Rightarrow>
          (s\<lparr>stdout := stdout s @
                 [Creating_detailed_map,
                  Saved_detailed (length (filter (\<lambda>row. 70 \<le> predicted_score row) (rows (df s))))],
             files := files s @ [(''detailed_opportunities.html'', Marker_map ms)]\<rparr>, None))"
  by (auto simp: map_2_def marker_layer_def print_def save_def bind_err_def
      dest: high_opportunities_Inr split: sum.splits)

lemma map_3_cases:
  "map_3 lib s =
     (case circle_layer lib (df s) of
        Inl e \<Rightarrow> (s\<lparr>stdout := stdout s @ [Creating_state_map]\<rparr>, Some e)
      | Inr cs \<Rightarrow>
          (s\<lparr>stdout := stdout s @ [Creating_state_map, Saved_state_map],
             files := files s @ [(''state_opportunities.html'', Circle_map cs)]\<rparr>, None))"
  by (simp add: map_3_def print_def save_def split: sum.splits)

lemma script_Parsed:
  "script lib (Parsed d) =
     (case heat_data d of
        Inl e \<Rightarrow> ([Loaded (length (rows d)), Creating_heat_map], [], Some e)
      | Inr h \<Rightarrow>
         (case marker_layer d of
            Inl e \<Rightarrow>
              ([Loaded (length (rows d)), Creating_heat_map, Saved_heatmap, Creating_detailed_map],
               [(''opportunity_heatmap.html'', Heat_map h)], Some e)
          | Inr ms \<Rightarrow>
             (case circle_layer lib d of
                Inl e \<Rightarrow>
                  ([Loaded (length (rows d)), Creating_heat_map, Saved_heatmap,
                    Creating_detailed_map,
                    Saved_detailed (length (filter (\<lambda>row. 70 \<le> predicted_score row) (rows d))),
                    Creating_state_map],
                   [(''opportunity_heatmap.html'', Heat_map h),
                    (''detailed_opportunities.html'', Marker_map ms)], Some e)
              | Inr cs \<Rightarrow>
                  ([Loaded (length (rows d)), Creating_heat_map, Saved_heatmap,
                    Creating_detailed_map,
                    Saved_detailed (length (filter (\<lambda>row. 70 \<le> predicted_score row) (rows d))),
                    Creating_state_map, Saved_state_map, All_maps_created,
                    Map_files_generated],
                   [(''opportunity_heatmap.html'', Heat_map h),
                    (''detailed_opportunities.html'', Marker_map ms),
                    (''state_opportunities.html'', Circle_map cs)], None))))"
  by (simp add: script_def read_csv_def Let_def and_then_def map_1_cases map_2_cases map_3_cases
      closing_lines_def print_def split: sum.splits)

lemma script_error_iff:
  "snd (snd (script lib (Parsed d))) \<noteq> None \<longleftrightarrow>
     isl (heat_data d) \<or> isl (marker_layer d) \<or> isl (circle_layer lib d)"
  by (simp add: script_Parsed split: sum.splits)

text \<open>
  C6, as amended. A missing file and an unparsable file end the run with the exception
  of \<^verbatim>\<open>read_csv\<close>, before anything is printed or saved. For a parsed file the run
  ends without an exception exactly when every column that it reads is there: the score
  and state columns always, the latitude column when there is a row, the longitude
  column when some row has a latitude, and the name, city, certification and military
  columns when some row has a score of at least 70 and both coordinates; a column that
  is never read may be missing. When an exception ends a section, the run stops there:
  what has been printed and saved is exactly the output of the sections completed before
  and the announcement of the failing section, with no file for the failing section or
  a later one and nothing printed after the announcement. So an exception in the heat
  map section leaves no file, one in the marker section leaves the heat map only, and
  one in the state summary section leaves the heat map and the marker map only.
\<close>

theorem fatal_errors:
  "script lib Missing = ([], [], Some FileNotFoundError) \<and>
   script lib Unparsable = ([], [], Some ParserError) \<and>
   (snd (snd (script lib (Parsed d))) = None \<longleftrightarrow>
      ''predicted_score'' \<in> set (columns d) \<and> ''STATE_NAME'' \<in> set (columns d) \<and>
      (rows d \<noteq> [] \<longrightarrow> ''LAT_DECIMAL'' \<in> set (columns d)) \<and>
      ((\<exists>row\<in>set (rows d). LAT_DECIMAL row \<noteq> None) \<longrightarrow> ''LONG_DECIMAL'' \<in> set (columns d)) \<and>
      ((\<exists>row\<in>set (rows d). 70 \<le> predicted_score row \<and>
           LAT_DECIMAL row \<noteq> None \<and> LONG_DECIMAL row \<noteq> None) \<longrightarrow>
         {''ARPT_NAME'', ''CITY'', ''cert_importance_score'', ''is_military_relevant''}
           \<subseteq> set (columns d))) \<and>
   (snd (snd (script lib f)) \<noteq> None \<longrightarrow>
      length (fst (snd (script lib f))) < 3 \<and>
      map fst (fst (snd (script lib f))) =
        take (length (fst (snd (script lib f))))
          [''opportunity_heatmap.html'', ''detailed_opportunities.html'',
           ''state_opportunities.html''] \<and>
      (fst (script lib f) = [] \<or>
       last (fst (script lib f)) \<in> {Creating_heat_map, Creating_detailed_map, Creating_state_map})) \<and>
   (heat_data d = Inl e \<longrightarrow>
      script lib (Parsed d) = ([Loaded (length (rows d)), Creating_heat_map], [], Some e)) \<and>
   (heat_data d = Inr h \<and> marker_layer d = Inl e \<longrightarrow>
      script lib (Parsed d) =
        ([Loaded (length (rows d)), Creating_heat_map, Saved_heatmap, Creating_detailed_map],
         [(''opportunity_heatmap.html'', Heat_map h)], Some e)) \<and>
   (heat_data d = Inr h \<and> marker_layer d = Inr ms \<and> circle_layer lib d = Inl e \<longrightarrow>
      script lib (Parsed d) =
        ([Loaded (length (rows d)), Creating_heat_map, Saved_heatmap, Creating_detailed_map,
          Saved_detailed (length (filter (\<lambda>row. 70 \<le> predicted_score row) (rows d))),
          Creating_state_map],
         [(''opportunity_heatmap.html'', Heat_map h),
          (''detailed_opportunities.html'', Marker_map ms)], Some e)) \<and>
   (heat_data d = Inr h \<and> marker_layer d = Inr ms \<and> circle_layer lib d = Inr cs \<longrightarrow>
      script lib (Parsed d) =
        ([Loaded (length (rows d)), Creating_heat_map, Saved_heatmap, Creating_detailed_map,
          Saved_detailed (length (filter (\<lambda>row. 70 \<le> predicted_score row) (rows d))),
          Creating_state_map, Saved_state_map, All_maps_created, Map_files_generated],
         [(''opportunity_heatmap.html'', Heat_map h),
          (''detailed_opportunities.html'', Marker_map ms),
          (''state_opportunities.html'', Circle_map cs)], None))"
proof (intro conjI impI)
  show "script lib Missing = ([], [], Some FileNotFoundError)"
    by (simp add: script_def read_csv_def)
  show "script lib Unparsable = ([], [], Some ParserError)"
    by (simp add: script_def read_csv_def)
  have none: "snd (snd (script lib (Parsed d))) = None \<longleftrightarrow>
      \<not> isl (heat_data d) \<and> \<not> isl (marker_layer d) \<and> \<not> isl (circle_layer lib d)"
    using script_error_iff[of lib d] by blast
  define NE where "NE \<longleftrightarrow> rows d \<noteq> []"
  define E1 where "E1 \<longleftrightarrow> (\<exists>row\<in>set (rows d). LAT_DECIMAL row \<noteq> None)"
  define E2 where "E2 \<longleftrightarrow> (\<exists>row\<in>set (rows d). notna_coordinates row)"
  define H0 where "H0 \<longleftrightarrow> (\<exists>row\<in>set (rows d). 70 \<le> predicted_score row)"
  define H1 where "H1 \<longleftrightarrow> (\<exists>row\<in>set (rows d). 70 \<le> predicted_score row \<and> LAT_DECIMAL row \<noteq> None)"
  define H2 where "H2 \<longleftrightarrow> (\<exists>row\<in>set (rows d). 70 \<le> predicted_score row \<and> notna_coordinates row)"
  define LAT where "LAT \<longleftrightarrow> ''LAT_DECIMAL'' \<in> set (columns d)"
  define LONG where "LONG \<longleftrightarrow> ''LONG_DECIMAL'' \<in> set (columns d)"
  define PS where "PS \<longleftrightarrow> ''predicted_score'' \<in> set (columns d)"
  define ST where "ST \<longleftrightarrow> ''STATE_NAME'' \<in> set (columns d)"
  define NM where "NM \<longleftrightarrow> ''ARPT_NAME'' \<in> set (columns d)"
  define CT where "CT \<longleftrightarrow> ''CITY'' \<in> set (columns d)"
  define CE where "CE \<longleftrightarrow> ''cert_importance_score'' \<in> set (columns d)"
  define MI where "MI \<longleftrightarrow> ''is_military_relevant'' \<in> set (columns d)"
  have rel: "H0 \<longrightarrow> NE" "H1 \<longrightarrow> E1" "H2 \<longrightarrow> H1" "H2 \<longrightarrow> H0" "H2 \<longrightarrow> E2" "E2 \<longrightarrow> E1" "E1 \<longrightarrow> NE"
    unfolding NE_def E1_def E2_def H0_def H1_def H2_def by auto
  have heat: "isl (heat_data d) \<longleftrightarrow> (NE \<and> \<not> LAT) \<or> (E1 \<and> \<not> LONG) \<or> (E2 \<and> \<not> PS)"
    unfolding heat_data_isl NE_def E1_def E2_def LAT_def LONG_def PS_def by (rule refl)
  have markers: "isl (marker_layer d) \<longleftrightarrow>
      \<not> PS \<or> (H0 \<and> \<not> LAT) \<or> (H1 \<and> \<not> LONG) \<or> (H2 \<and> \<not> (NM \<and> CT \<and> ST \<and> CE \<and> MI))"
    unfolding marker_layer_isl H0_def H1_def H2_def LAT_def LONG_def PS_def NM_def CT_def
      ST_def CE_def MI_def by simp
  have circles: "isl (circle_layer lib d) \<longleftrightarrow> \<not> ST \<or> \<not> PS"
    unfolding circle_layer_isl ST_def PS_def by (rule refl)
  have "snd (snd (script lib (Parsed d))) = None \<longleftrightarrow>
      PS \<and> ST \<and> (NE \<longrightarrow> LAT) \<and> (E1 \<longrightarrow> LONG) \<and> (H2 \<longrightarrow> NM \<and> CT \<and> CE \<and> MI)"
    unfolding none heat markers circles using rel by blast
  then show "snd (snd (script lib (Parsed d))) = None \<longleftrightarrow>
      ''predicted_score'' \<in> set (columns d) \<and> ''STATE_NAME'' \<in> set (columns d) \<and>
      (rows d \<noteq> [] \<longrightarrow> ''LAT_DECIMAL'' \<in> set (columns d)) \<and>
      ((\<exists>row\<in>set (rows d). LAT_DECIMAL row \<noteq> None) \<longrightarrow> ''LONG_DECIMAL'' \<in> set (columns d)) \<and>
      ((\<exists>row\<in>set (rows d). 70 \<le> predicted_score row \<and>
           LAT_DECIMAL row \<noteq> None \<and> LONG_DECIMAL row \<noteq> None) \<longrightarrow>
         {''ARPT_NAME'', ''CITY'', ''cert_importance_score'', ''is_military_relevant''}
           \<subseteq> set (columns d))"
    unfolding NE_def E1_def H2_def LAT_def LONG_def PS_def NM_def CT_def ST_def CE_def MI_def
    by simp
next
  assume err: "snd (snd (script lib f)) \<noteq> None"
  have *: "length (fst (snd (script lib f))) < 3 \<and>
      map fst (fst (snd (script lib f))) =
        take (length (fst (snd (script lib f))))
          [''opportunity_heatmap.html'', ''detailed_opportunities.html'',
           ''state_opportunities.html''] \<and>
      (fst (script lib f) = [] \<or>
       last (fst (script lib f)) \<in> {Creating_heat_map, Creating_detailed_map, Creating_state_map})"
  proof (cases f)
    case Missing
    then show ?thesis by (simp add: script_def read_csv_def)
  next
    case Unparsable
    then show ?thesis by (simp add: script_def read_csv_def)
  next
    case (Parsed d')
    with err show ?thesis
      by (simp add: script_Parsed split: sum.splits)
  qed
  from * show "length (fst (snd (script lib f))) < 3" by blast
  from * show "map fst (fst (snd (script lib f))) =
        take (length (fst (snd (script lib f))))
          [''opportunity_heatmap.html'', ''detailed_opportunities.html'',
           ''state_opportunities.html'']" by blast
  from * show "fst (script lib f) = [] \<or>
       last (fst (script lib f)) \<in> {Creating_heat_map, Creating_detailed_map, Creating_state_map}"
    by blast
next
  assume "heat_data d = Inl e"
  then show "script lib (Parsed d) = ([Loaded (length (rows d)), Creating_heat_map], [], Some e)"
    by (simp add: script_Parsed)
next
  assume "heat_data d = Inr h \<and> marker_layer d = Inl e"
  then show "script lib (Parsed d) =
        ([Loaded (length (rows d)), Creating_heat_map, Saved_heatmap, Creating_detailed_map],
         [(''opportunity_heatmap.html'', Heat_map h)], Some e)"
    by (simp add: script_Parsed)
next
  assume "heat_data d = Inr h \<and> marker_layer d = Inr ms \<and> circle_layer lib d = Inl e"
  then show "script lib (Parsed d) =
        ([Loaded (length (rows d)), Creating_heat_map, Saved_heatmap, Creating_detailed_map,
          Saved_detailed (length (filter (\<lambda>row. 70 \<le> predicted_score row) (rows d))),
          Creating_state_map],
         [(''opportunity_heatmap.html'', Heat_map h),
          (''detailed_opportunities.html'', Marker_map ms)], Some e)"
    by (simp add: script_Parsed)
next
  assume "heat_data d = Inr h \<and> marker_layer d = Inr ms \<and> circle_layer lib d = Inr cs"
  then show "script lib (Parsed d) =
        ([Loaded (length (rows d)), Creating_heat_map, Saved_heatmap, Creating_detailed_map,
          Saved_detailed (length (filter (\<lambda>row. 70 \<le> predicted_score row) (rows d))),
          Creating_state_map, Saved_state_map, All_maps_created, Map_files_generated],
         [(''opportunity_heatmap.html'', Heat_map h),
          (''detailed_opportunities.html'', Marker_map ms),
          (''state_opportunities.html'', Circle_map cs)], None)"
    by (simp add: script_Parsed)
qed

theorem fatal_errors_witness:
  "\<forall>lib. snd (snd (script lib (Parsed fixture))) = None \<and>
     script lib Missing = ([], [], Some FileNotFoundError) \<and>
     heat_data fixture_no_city =
       Inr [(Some 58, Some (- 134), 72), (Some 32, Some (- 96), 55 / 2)] \<and>
     marker_layer fixture_no_city = Inl (KeyError ''CITY'') \<and>
     script lib (Parsed fixture_no_city) =
       ([Loaded 3, Creating_heat_map, Saved_heatmap, Creating_detailed_map],
        [(''opportunity_heatmap.html'',
          Heat_map [(Some 58, Some (- 134), 72), (Some 32, Some (- 96), 55 / 2)])],
        Some (KeyError ''CITY'')) \<and>
     snd (snd (script lib (Parsed fixture_no_city))) \<noteq> None \<and>
     length (fst (snd (script lib (Parsed fixture_no_city)))) < 3"
proof
  fix lib
  let ?h = "[(Some 58, Some (- 134), 72), (Some 32, Some (- 96), 55 / 2)] :: heat_point list"
  have a: "snd (snd (script lib (Parsed fixture))) = None"
    using fatal_errors [where lib = lib and d = fixture and f = Missing]
    by (simp add: fixture_def required_columns_def)
  have heat: "heat_data fixture_no_city = Inr ?h"
    by (simp add: heat_data_def fixture_no_city_def columns_without_city_def fixture_a_def
        fixture_b_def fixture_c_def coordinates_notna_def heat_point_def getitem_def bind_err_def)
  have markers: "marker_layer fixture_no_city = Inl (KeyError ''CITY'')"
    by (simp add: marker_layer_def marker_cluster_def high_opportunities_def fixture_no_city_def
        columns_without_city_def fixture_a_def fixture_b_def fixture_c_def coordinates_notna_def
        make_marker_def getitem_def bind_err_def)
  have run: "script lib (Parsed fixture_no_city) =
       ([Loaded 3, Creating_heat_map, Saved_heatmap, Creating_detailed_map],
        [(''opportunity_heatmap.html'', Heat_map ?h)], Some (KeyError ''CITY''))"
    using fatal_errors [where lib = lib and d = fixture_no_city and h = ?h
        and e = "KeyError ''CITY''"] heat markers
    by (simp add: fixture_no_city_def)
  from a heat markers run fatal_errors [where lib = lib and f = Missing]
  show "snd (snd (script lib (Parsed fixture))) = None \<and>
     script lib Missing = ([], [], Some FileNotFoundError) \<and>
     heat_data fixture_no_city = Inr ?h \<and>
     marker_layer fixture_no_city = Inl (KeyError ''CITY'') \<and>
     script lib (Parsed fixture_no_city) =
       ([Loaded 3, Creating_heat_map, Saved_heatmap, Creating_detailed_map],
        [(''opportunity_heatmap.html'', Heat_map ?h)], Some (KeyError ''CITY'')) \<and>
     snd (snd (script lib (Parsed fixture_no_city))) \<noteq> None \<and>
     length (fst (snd (script lib (Parsed fixture_no_city)))) < 3"
    by simp
qed

text \<open>
  C6 as stated fails: the header has no \<^verbatim>\<open>CITY\<close> column, which is one of the required
  columns, and the run ends without an exception with all three files saved, since no row
  gets a marker; this is so whatever the float mean and rounding are.
\<close>

theorem missing_column_counterexample:
  "\<forall>lib. ''CITY'' \<in> set required_columns \<and> ''CITY'' \<notin> set (columns fixture_low) \<and>
     script lib (Parsed fixture_low) =
       ([Loaded 1, Creating_heat_map, Saved_heatmap, Creating_detailed_map, Saved_detailed 0,
         Creating_state_map, Saved_state_map, All_maps_created, Map_files_generated],
        [(''opportunity_heatmap.html'', Heat_map [(Some 32, Some (- 96), 55 / 2)]),
         (''detailed_opportunities.html'', Marker_map []),
         (''state_opportunities.html'',
          Circle_map
            [\<lparr>circle_location = (31054487 / 1000000, - (97563461 / 1000000)),
              circle_radius = 1 / 10, circle_state = ''Texas'',
              circle_stats =
                \<lparr>avg_score = round2 lib (mean lib [55 / 2]), max_score = round2 lib (55 / 2),
                 count = 1\<rparr>,
              fillColor = fill_color (round2 lib (mean lib [55 / 2]))\<rparr>])],
        None)"
proof
  fix lib
  have heat: "heat_data fixture_low = Inr [(Some 32, Some (- 96), 55 / 2)]"
    by (simp add: heat_data_def fixture_low_def columns_without_city_def fixture_c_def
        coordinates_notna_def heat_point_def getitem_def bind_err_def)
  have markers: "marker_layer fixture_low = Inr []"
    by (simp add: marker_layer_def marker_cluster_def high_opportunities_def fixture_low_def
        columns_without_city_def fixture_c_def bind_err_def)
  have circles: "circle_layer lib fixture_low =
      Inr [\<lparr>circle_location = (31054487 / 1000000, - (97563461 / 1000000)),
            circle_radius = 1 / 10, circle_state = ''Texas'',
            circle_stats =
              \<lparr>avg_score = round2 lib (mean lib [55 / 2]), max_score = round2 lib (55 / 2),
               count = 1\<rparr>,
            fillColor = fill_color (round2 lib (mean lib [55 / 2]))\<rparr>]"
    by (simp add: circle_layer_def state_summary_def groupby_def fixture_low_def
        columns_without_city_def fixture_c_def bind_err_def agg_def maximum_def
        state_centers_def radius_def)
  show "''CITY'' \<in> set required_columns \<and> ''CITY'' \<notin> set (columns fixture_low) \<and>
     script lib (Parsed fixture_low) =
       ([Loaded 1, Creating_heat_map, Saved_heatmap, Creating_detailed_map, Saved_detailed 0,
         Creating_state_map, Saved_state_map, All_maps_created, Map_files_generated],
        [(''opportunity_heatmap.html'', Heat_map [(Some 32, Some (- 96), 55 / 2)]),
         (''detailed_opportunities.html'', Marker_map []),
         (''state_opportunities.html'',
          Circle_map
            [\<lparr>circle_location = (31054487 / 1000000, - (97563461 / 1000000)),
              circle_radius = 1 / 10, circle_state = ''Texas'',
              circle_stats =
                \<lparr>avg_score = round2 lib (mean lib [55 / 2]), max_score = round2 lib (55 / 2),
                 count = 1\<rparr>,
              fillColor = fill_color (round2 lib (mean lib [55 / 2]))\<rparr>])],
        None)"
    by (simp add: script_Parsed heat markers circles)
       (simp add: required_columns_def fixture_low_def columns_without_city_def fixture_c_def)
qed

subsection \<open>The loaded frame\<close>

lemma circle_layer_members:
  assumes "circle_layer lib d = Inr cs" and "c \<in> set cs"
  shows "circle_state c \<in> STATE_NAME ` set (rows d) \<and>
         circle_stats c = agg lib (scores_of (circle_state c) (rows d)) \<and>
         map_of state_centers (circle_state c) = Some (circle_location c) \<and>
         circle_radius c = radius (count (circle_stats c)) \<and>
         fillColor c = fill_color (avg_score (circle_stats c))"
proof -
  from circle_layer_Inr[OF assms(1)] obtain summary
    where s: "state_summary lib d = Inr summary" and cs: "cs = circle_loop summary []" by blast
  from circle_loop_members[of c summary "[]"] assms(2)
  have m: "(circle_state c, circle_stats c) \<in> set summary"
    and rest: "map_of state_centers (circle_state c) = Some (circle_location c)"
      "circle_radius c = radius (count (circle_stats c))"
      "fillColor c = fill_color (avg_score (circle_stats c))"
    by (simp_all add: cs)
  from m state_summary_Inr(2)[OF s]
  have look: "map_of summary (circle_state c) = Some (circle_stats c)" by simp
  have "circle_state c \<in> STATE_NAME ` set (rows d)"
    using look state_summary_Inr(1)[OF s, of "circle_state c"] by (simp split: if_splits)
  moreover from this have "circle_stats c = agg lib (scores_of (circle_state c) (rows d))"
    using look state_summary_Inr(1)[OF s, of "circle_state c"] by simp
  ultimately show ?thesis using rest by blast
qed

text \<open>
  C8. None of the three sections changes the loaded frame. Every heat point is the
  (latitude, longitude, score) cells of an input row, every marker is built from the cells
  of an input row, and every circle carries a state name of the input with the aggregate
  of the input scores of that state; the remaining fields of a circle are computed from
  these by the script's fixed table and thresholds.
\<close>

theorem dataset_immutable:
  "df (fst (map_1 s)) = df s \<and> df (fst (map_2 s)) = df s \<and> df (fst (map_3 lib s)) = df s \<and>
   (snd (map_1 s) = None \<longrightarrow>
      (\<exists>h. files (fst (map_1 s)) = files s @ [(''opportunity_heatmap.html'', Heat_map h)] \<and>
           set h \<subseteq> (\<lambda>row. (LAT_DECIMAL row, LONG_DECIMAL row, predicted_score row))
                      ` set (rows (df s)))) \<and>
   (snd (map_2 s) = None \<longrightarrow>
      (\<exists>ms. files (fst (map_2 s)) = files s @ [(''detailed_opportunities.html'', Marker_map ms)] \<and>
            set ms \<subseteq> marker_of ` set (rows (df s)))) \<and>
   (snd (map_3 lib s) = None \<longrightarrow>
      (\<exists>cs. files (fst (map_3 lib s)) = files s @ [(''state_opportunities.html'', Circle_map cs)] \<and>
            (\<forall>c\<in>set cs.
               circle_state c \<in> STATE_NAME ` set (rows (df s)) \<and>
               circle_stats c =
                 agg lib (map predicted_score
                        (filter (\<lambda>row. STATE_NAME row = circle_state c) (rows (df s)))) \<and>
               map_of state_centers (circle_state c) = Some (circle_location c) \<and>
               circle_radius c = radius (count (circle_stats c)) \<and>
               fillColor c = fill_color (avg_score (circle_stats c)))))"
proof (intro conjI impI)
  show "df (fst (map_1 s)) = df s" by (simp add: map_1_cases split: sum.splits)
  show "df (fst (map_2 s)) = df s" by (simp add: map_2_cases split: sum.splits)
  show "df (fst (map_3 lib s)) = df s" by (simp add: map_3_cases split: sum.splits)
next
  assume "snd (map_1 s) = None"
  then obtain h where h: "heat_data (df s) = Inr h"
    by (cases "heat_data (df s)") (simp_all add: map_1_cases)
  then have "heat_loop (df s) (rows (df s)) [] = Inr h" by (simp add: heat_data_def)
  from heat_loop_Inr[OF this]
  have "set h \<subseteq> (\<lambda>row. (LAT_DECIMAL row, LONG_DECIMAL row, predicted_score row))
                      ` set (rows (df s))" by auto
  with h show "\<exists>h. files (fst (map_1 s)) = files s @ [(''opportunity_heatmap.html'', Heat_map h)] \<and>
           set h \<subseteq> (\<lambda>row. (LAT_DECIMAL row, LONG_DECIMAL row, predicted_score row))
                      ` set (rows (df s))"
    by (simp add: map_1_cases)
next
  assume "snd (map_2 s) = None"
  then obtain ms where ms: "marker_layer (df s) = Inr ms"
    by (cases "marker_layer (df s)") (simp_all add: map_2_cases)
  from marker_layer_Inr[OF this] have "set ms \<subseteq> marker_of ` set (rows (df s))" by auto
  with ms show "\<exists>ms. files (fst (map_2 s)) =
             files s @ [(''detailed_opportunities.html'', Marker_map ms)] \<and>
            set ms \<subseteq> marker_of ` set (rows (df s))"
    by (simp add: map_2_cases)
next
  assume "snd (map_3 lib s) = None"
  then obtain cs where cs: "circle_layer lib (df s) = Inr cs"
    by (cases "circle_layer lib (df s)") (simp_all add: map_3_cases)
  have "\<forall>c\<in>set cs.
               circle_state c \<in> STATE_NAME ` set (rows (df s)) \<and>
               circle_stats c =
                 agg lib (map predicted_score
                        (filter (\<lambda>row. STATE_NAME row = circle_state c) (rows (df s)))) \<and>
               map_of state_centers (circle_state c) = Some (circle_location c) \<and>
               circle_radius c = radius (count (circle_stats c)) \<and>
               fillColor c = fill_color (avg_score (circle_stats c))"
    using circle_layer_members[OF cs] by (simp add: scores_of_def)
  with cs show "\<exists>cs. files (fst (map_3 lib s)) =
            files s @ [(''state_opportunities.html'', Circle_map cs)] \<and>
            (\<forall>c\<in>set cs.
               circle_state c \<in> STATE_NAME ` set (rows (df s)) \<and>
               circle_stats c =
                 agg lib (map predicted_score
                        (filter (\<lambda>row. STATE_NAME row = circle_state c) (rows (df s)))) \<and>
               map_of state_centers (circle_state c) = Some (circle_location c) \<and>
               circle_radius c = radius (count (circle_stats c)) \<and>
               fillColor c = fill_color (avg_score (circle_stats c)))"
    by (simp add: map_3_cases)
qed

theorem dataset_immutable_witness:
  "snd (map_2 \<lparr>df = fixture, stdout = [], files = []\<rparr>) = None \<and>
   df (fst (map_2 \<lparr>df = fixture, stdout = [], files = []\<rparr>)) = fixture \<and>
   (\<exists>ms. files (fst (map_2 \<lparr>df = fixture, stdout = [], files = []\<rparr>)) =
           [(''detailed_opportunities.html'', Marker_map ms)] \<and>
         set ms \<subseteq> marker_of ` set (rows fixture))"
proof -
  let ?s = "\<lparr>df = fixture, stdout = [], files = []\<rparr>"
  have ok: "snd (map_2 ?s) = None"
    by (simp add: map_2_cases marker_layer_present[OF has_columns_fixture])
  from dataset_immutable [of ?s] ok show ?thesis by simp
qed

subsection \<open>The number of airports reported\<close>

text \<open>
  C10. The number printed after saving the marker map is the number of rows with a
  score of at least 70, whatever their coordinates, and the number of markers is at most
  that number; for some input with all columns, in which a row of score at least 70 has
  no latitude, the number printed is strictly greater than the number of markers.
\<close>

theorem reported_count_exceeds_markers:
  "(snd (map_2 s) = None \<longrightarrow>
      (\<exists>ms. files (fst (map_2 s)) = files s @ [(''detailed_opportunities.html'', Marker_map ms)] \<and>
            stdout (fst (map_2 s)) =
              stdout s @
                [Creating_detailed_map,
                 Saved_detailed
                   (length (filter (\<lambda>row. 70 \<le> predicted_score row) (rows (df s))))] \<and>
            length ms \<le> length (filter (\<lambda>row. 70 \<le> predicted_score row) (rows (df s))))) \<and>
   (\<exists>d ms n. has_columns d \<and>
      map_2 \<lparr>df = d, stdout = [], files = []\<rparr> =
        (\<lparr>df = d, stdout = [Creating_detailed_map, Saved_detailed n],
          files = [(''detailed_opportunities.html'', Marker_map ms)]\<rparr>, None) \<and>
      (\<exists>row\<in>set (rows d). 70 \<le> predicted_score row \<and> LAT_DECIMAL row = None) \<and>
      length ms < n)"
proof (intro conjI impI)
  assume "snd (map_2 s) = None"
  then obtain ms where ms: "marker_layer (df s) = Inr ms"
    by (cases "marker_layer (df s)") (simp_all add: map_2_cases)
  have "length (filter (\<lambda>row. 70 \<le> predicted_score row \<and> notna_coordinates row) xs)
          \<le> length (filter (\<lambda>row. 70 \<le> predicted_score row) xs)" for xs :: "AirportRecord list"
    by (induction xs) auto
  then have "length ms \<le> length (filter (\<lambda>row. 70 \<le> predicted_score row) (rows (df s)))"
    unfolding marker_layer_Inr[OF ms] by simp
  with ms show "\<exists>ms. files (fst (map_2 s)) =
            files s @ [(''detailed_opportunities.html'', Marker_map ms)] \<and>
            stdout (fst (map_2 s)) =
              stdout s @
                [Creating_detailed_map,
                 Saved_detailed
                   (length (filter (\<lambda>row. 70 \<le> predicted_score row) (rows (df s))))] \<and>
            length ms \<le> length (filter (\<lambda>row. 70 \<le> predicted_score row) (rows (df s)))"
    by (simp add: map_2_cases)
next
  have "map_2 \<lparr>df = fixture, stdout = [], files = []\<rparr> =
        (\<lparr>df = fixture, stdout = [Creating_detailed_map, Saved_detailed 2],
          files = [(''detailed_opportunities.html'', Marker_map [marker_of fixture_b])]\<rparr>, None)"
    by (simp add: map_2_cases marker_layer_present[OF has_columns_fixture])
       (simp add: fixture_def fixture_a_def fixture_b_def fixture_c_def)
  moreover have "\<exists>row\<in>set (rows fixture). 70 \<le> predicted_score row \<and> LAT_DECIMAL row = None"
    by (simp add: fixture_def fixture_a_def)
  ultimately show "\<exists>d ms n. has_columns d \<and>
      map_2 \<lparr>df = d, stdout = [], files = []\<rparr> =
        (\<lparr>df = d, stdout = [Creating_detailed_map, Saved_detailed n],
          files = [(''detailed_opportunities.html'', Marker_map ms)]\<rparr>, None) \<and>
      (\<exists>row\<in>set (rows d). 70 \<le> predicted_score row \<and> LAT_DECIMAL row = None) \<and>
      length ms < n"
    using has_columns_fixture
    by (intro exI[of _ fixture] exI[of _ "[marker_of fixture_b]"] exI[of _ 2]) simp
qed

theorem reported_count_exceeds_markers_witness:
  "snd (map_2 \<lparr>df = fixture, stdout = [], files = []\<rparr>) = None \<and>
   (\<exists>ms. files (fst (map_2 \<lparr>df = fixture, stdout = [], files = []\<rparr>)) =
           [(''detailed_opportunities.html'', Marker_map ms)] \<and>
         stdout (fst (map_2 \<lparr>df = fixture, stdout = [], files = []\<rparr>)) =
           [Creating_detailed_map, Saved_detailed 2] \<and>
         length ms \<le> 2)"
proof -
  let ?s = "\<lparr>df = fixture, stdout = [], files = []\<rparr>"
  have ok: "snd (map_2 ?s) = None"
    by (simp add: map_2_cases marker_layer_present[OF has_columns_fixture])
  have n: "length (filter (\<lambda>row. 70 \<le> predicted_score row) (rows (df ?s))) = 2"
    by (simp add: fixture_def fixture_a_def fixture_b_def fixture_c_def)
  from reported_count_exceeds_markers [of ?s] ok show ?thesis
    unfolding n by simp
qed

end
